theory Spec2Isabelle
  imports Complex_Main "HOL-Library.Word"
begin

section \<open>C values\<close>

text \<open>
  \<^verbatim>\<open>vips.h\<close> is a set of fixed-arity C functions, each of which calls one operation of
  the wrapped image library with a fixed list of keyword options. The shim computes
  nothing itself: integers, doubles and pointers are handed on as they come.

  An \<^verbatim>\<open>int\<close> is a 32-bit word, a \<^verbatim>\<open>size_t\<close> a 64-bit word. A \<^verbatim>\<open>double\<close> is only
  ever passed along or written as one of the literals \<^verbatim>\<open>1.0\<close> and \<^verbatim>\<open>255.0\<close>, both
  exact, so it is a real number here. Pointers and handles are opaque addresses;
  \<open>0\<close> is \<^verbatim>\<open>NULL\<close>.
\<close>

type_synonym c_int = "32 word"
type_synonym size_t = "64 word"
type_synonym c_double = real
type_synonym ptr = nat

text \<open>glib's \<^verbatim>\<open>TRUE\<close>.\<close>

definition TRUE :: c_int where
  "TRUE = 1"

text \<open>
  The conversion C applies to a \<^verbatim>\<open>double\<close> argument where the prototype in scope
  declares an \<^verbatim>\<open>int\<close> parameter: the fractional part is discarded (truncation towards
  zero).
\<close>

definition c_int_of_double :: "c_double \<Rightarrow> c_int" where
  "c_int_of_double x = word_of_int (if 0 \<le> x then \<lfloor>x\<rfloor> else \<lceil>x\<rceil>)"

section \<open>The wrapped library, as the shim sees it\<close>

text \<open>The access hints of the wrapped library (\<^verbatim>\<open>VipsAccess\<close>).\<close>

datatype VipsAccess =
    VIPS_ACCESS_RANDOM
  | VIPS_ACCESS_SEQUENTIAL
  | VIPS_ACCESS_SEQUENTIAL_UNBUFFERED

text \<open>
  The variadic tail of a library call is a sequence of name/value pairs closed by
  \<^verbatim>\<open>NULL\<close>: a list of pairs, the empty list for a bare \<^verbatim>\<open>NULL\<close>.
\<close>

datatype arg =
    Arg_int c_int
  | Arg_access VipsAccess
  | Arg_ptr ptr

type_synonym options = "(string \<times> arg) list"

text \<open>
  One constructor for each status-returning library operation the shim calls, with
  the required arguments in the order of the C call and the option list last.
\<close>

datatype lib_call =
    Vips_init string
  | Vips_gaussblur ptr ptr c_double options
  | Vips_affine ptr ptr c_double c_double c_double c_double options
  | Vips_jpegload_buffer ptr size_t ptr options
  | Vips_magickload string ptr options
  | Vips_pngload_buffer ptr size_t ptr options
  | Vips_shrink ptr ptr c_double c_double options
  | Vips_copy ptr ptr options
  | Vips_flatten ptr ptr options
  | Vips_embed ptr ptr c_int c_int c_int c_int options
  | Vips_colourspace ptr ptr c_int options
  | Vips_extract_area ptr ptr c_int c_int c_int c_int options
  | Vips_jpegsave_buffer ptr ptr ptr options

fun call_options :: "lib_call \<Rightarrow> options" where
  "call_options (Vips_init name) = []"
| "call_options (Vips_gaussblur inp out sigma os) = os"
| "call_options (Vips_affine inp out a b c d os) = os"
| "call_options (Vips_jpegload_buffer buf len out os) = os"
| "call_options (Vips_magickload filename out os) = os"
| "call_options (Vips_pngload_buffer buf len out os) = os"
| "call_options (Vips_shrink inp out xshrink yshrink os) = os"
| "call_options (Vips_copy inp out os) = os"
| "call_options (Vips_flatten inp out os) = os"
| "call_options (Vips_embed inp out left top0 width height os) = os"
| "call_options (Vips_colourspace inp out space os) = os"
| "call_options (Vips_extract_area inp out left top0 width height os) = os"
| "call_options (Vips_jpegsave_buffer inp buf len os) = os"

text \<open>
  A reference-counted array of doubles (\<^verbatim>\<open>VipsArrayDouble\<close>, a \<^verbatim>\<open>VipsArea\<close>): the
  number of references held and the elements.
\<close>

record area =
  count :: nat
  data :: "c_double list"

text \<open>
  The memory a call can touch: the live areas, the address the allocator hands out
  next, the caller's cells that output parameters point to (handle slots, the buffer
  pointer and the length), the library's own state \<open>priv\<close> (its images, caches and
  error buffer), and a flag raised by a memory error (C leaves such a run undefined).
\<close>

record 'l world =
  areas :: "ptr \<rightharpoonup> area"
  next_area :: ptr
  slots :: "ptr \<rightharpoonup> nat"
  priv :: 'l
  mem_fault :: bool

text \<open>
  The wrapped library is not part of the repository, so it is a parameter: any
  function from a call and a world to a status code and a world.
\<close>

type_synonym 'l library = "lib_call \<Rightarrow> 'l world \<Rightarrow> c_int \<times> 'l world"

text \<open>
  What a run did, in order: the library operations called with the status each one
  returned, and the allocations and releases of arrays. The log is kept beside the
  world, where the library cannot alter it.
\<close>

datatype event =
    is_Allocated: Allocated ptr "c_double list"
  | is_Called: Called lib_call c_int
  | is_Released: Released ptr

type_synonym 'l state = "'l world \<times> event list"

definition call :: "'l library \<Rightarrow> lib_call \<Rightarrow> 'l state \<Rightarrow> c_int \<times> 'l state" where
  "call L c s =
     (case s of (w, tr) \<Rightarrow>
        (case L c w of (r, w') \<Rightarrow> (r, (w', tr @ [Called c r]))))"

text \<open>
  The library declares \<^verbatim>\<open>VipsArrayDouble *vips_array_double_newv(int n, ...)\<close>: the
  first argument is the number of elements, the variadic doubles after it are the
  elements. The new area holds one reference, the caller's. Reading more elements
  than were passed is a memory error.
\<close>

definition vips_array_double_newv :: "c_int \<Rightarrow> c_double list \<Rightarrow> 'l state \<Rightarrow> ptr \<times> 'l state" where
  "vips_array_double_newv n vs s =
     (case s of (w, tr) \<Rightarrow>
        (let p = next_area w;
             k = nat (sint n);
             xs = take k vs
         in (p, (w\<lparr>areas := (areas w)(p \<mapsto> \<lparr>count = 1, data = xs\<rparr>),
                   next_area := Suc p,
                   mem_fault := (mem_fault w \<or> length vs < k)\<rparr>,
                 tr @ [Allocated p xs]))))"

text \<open>
  \<^verbatim>\<open>vips_area_unref\<close> gives one reference back; the area is freed with its last
  reference. Releasing an address that holds no live area is a memory error.
\<close>

definition vips_area_unref :: "ptr \<Rightarrow> 'l state \<Rightarrow> 'l state" where
  "vips_area_unref p s =
     (case s of (w, tr) \<Rightarrow>
        (case areas w p of
           None \<Rightarrow> (w\<lparr>mem_fault := True\<rparr>, tr @ [Released p])
         | Some a \<Rightarrow>
             (if count a \<le> 1
              then (w\<lparr>areas := (areas w)(p := None)\<rparr>, tr @ [Released p])
              else (w\<lparr>areas := (areas w)(p \<mapsto> a\<lparr>count := count a - 1\<rparr>)\<rparr>,
                    tr @ [Released p]))))"

section \<open>The shim\<close>

text \<open>
  Each function of \<^verbatim>\<open>vips.h\<close>, in the order of the file, with the library as its
  first argument and the state as its last. Four names of the source are taken here
  and are changed: the parameters \<^verbatim>\<open>in\<close>, \<^verbatim>\<open>top\<close> and \<^verbatim>\<open>extend\<close> are \<open>inp\<close>, \<open>top0\<close>
  and \<open>extend_mode\<close>, and \<^verbatim>\<open>vips_magickload_\<close> ends in a prime instead of an
  underscore.
\<close>

definition vips_initialize :: "'l library \<Rightarrow> 'l state \<Rightarrow> c_int \<times> 'l state" where
  "vips_initialize L s = call L (Vips_init ''govips'') s"



definition vips_jpegload_buffer_seq ::
  "'l library \<Rightarrow> ptr \<Rightarrow> size_t \<Rightarrow> ptr \<Rightarrow> 'l state \<Rightarrow> c_int \<times> 'l state" where
  "vips_jpegload_buffer_seq L buf len out s =
     call L (Vips_jpegload_buffer buf len out
               [(''access'', Arg_access VIPS_ACCESS_SEQUENTIAL)]) s"


definition vips_jpegload_buffer_shrink ::
  "'l library \<Rightarrow> ptr \<Rightarrow> size_t \<Rightarrow> ptr \<Rightarrow> c_int \<Rightarrow> 'l state \<Rightarrow> c_int \<times> 'l state" where
  "vips_jpegload_buffer_shrink L buf len out shrink s =
     call L (Vips_jpegload_buffer buf len out [(''shrink'', Arg_int shrink)]) s"

definition vips_pngload_buffer_seq ::
  "'l library \<Rightarrow> ptr \<Rightarrow> size_t \<Rightarrow> ptr \<Rightarrow> 'l state \<Rightarrow> c_int \<times> 'l state" where
  "vips_pngload_buffer_seq L buf len out s =
     call L (Vips_pngload_buffer buf len out
               [(''access'', Arg_access VIPS_ACCESS_SEQUENTIAL)]) s"



text \<open>
  \<^verbatim>\<open>vips_array_double_newv(1.0, 255.0)\<close>: the first argument meets the \<^verbatim>\<open>int n\<close> of
  the prototype and is converted, the second is the variadic tail.
\<close>

definition vips_flatten_0 :: "'l library \<Rightarrow> ptr \<Rightarrow> ptr \<Rightarrow> 'l state \<Rightarrow> c_int \<times> 'l state" where
  "vips_flatten_0 L inp out s =
     (case vips_array_double_newv (c_int_of_double 1) [255] s of (white, s1) \<Rightarrow>
        (case call L (Vips_flatten inp out [(''background'', Arg_ptr white)]) s1 of
           (flatten_value, s2) \<Rightarrow> (flatten_value, vips_area_unref white s2)))"




definition vips_jpegsave_custom ::
  "'l library \<Rightarrow> ptr \<Rightarrow> ptr \<Rightarrow> ptr \<Rightarrow> c_int \<Rightarrow> c_int \<Rightarrow> c_int
     \<Rightarrow> 'l state \<Rightarrow> c_int \<times> 'l state" where
  "vips_jpegsave_custom L inp buf len strip quality interlace s =
     call L (Vips_jpegsave_buffer inp buf len
               [(''strip'', Arg_int strip), (''Q'', Arg_int quality),
                (''optimize_coding'', Arg_int TRUE), (''interlace'', Arg_int interlace)]) s"



text \<open>The options a run handed to the library, over all its calls, in order.\<close>

fun event_options :: "event \<Rightarrow> options" where
  "event_options (Called c r) = call_options c"
| "event_options (Allocated p xs) = []"
| "event_options (Released p) = []"

definition options_passed :: "event list \<Rightarrow> options" where
  "options_passed evs = concat (map event_options evs)"


section \<open>Libraries to run the shim against\<close>



text \<open>
  A library that succeeds and takes a reference of its own to the array its
  \<^verbatim>\<open>"background"\<close> option points to, as storing an option of a reference-counted type
  in an operation does.
\<close>

definition keeping_library :: "unit library" where
  "keeping_library c w =
     (case map_of (call_options c) ''background'' of
        Some (Arg_ptr p) \<Rightarrow>
          (case areas w p of
             Some a \<Rightarrow> (0, w\<lparr>areas := (areas w)(p \<mapsto> a\<lparr>count := Suc (count a)\<rparr>)\<rparr>)
           | None \<Rightarrow> (0, w))
      | _ \<Rightarrow> (0, w))"

text \<open>A world with nothing allocated and nothing written.\<close>

definition empty_world :: "'l \<Rightarrow> 'l world" where
  "empty_world l =
     \<lparr>areas = Map.empty, next_area = 1, slots = Map.empty, priv = l, mem_fault = False\<rparr>"

text \<open>
  A library that, at each call, looks up the array its \<^verbatim>\<open>"background"\<close> option points
  to and keeps the elements it finds there. It always succeeds.
\<close>

definition probe_background :: "c_double list option library" where
  "probe_background c w =
     (case map_of (call_options c) ''background'' of
        Some (Arg_ptr p) \<Rightarrow> (0, w\<lparr>priv := map_option data (areas w p)\<rparr>)
      | _ \<Rightarrow> (0, w))"

text \<open>
  A small stand-in for the library. An image is its width and height; handle \<open>h\<close>
  is the \<open>h\<close>-th image made so far. A call on a handle that is not an image, on a
  \<^verbatim>\<open>NULL\<close> buffer or with a factor it does not accept returns \<open>-1\<close> and changes nothing.
\<close>

type_synonym dims = "nat \<times> nat"

definition stub_image :: "dims list \<Rightarrow> ptr \<Rightarrow> dims option" where
  "stub_image imgs h = (if 0 < h \<and> h \<le> length imgs then Some (imgs ! (h - 1)) else None)"

definition stub_emit :: "ptr \<Rightarrow> dims \<Rightarrow> dims list world \<Rightarrow> c_int \<times> dims list world" where
  "stub_emit out d w =
     (0, w\<lparr>slots := (slots w)(out \<mapsto> Suc (length (priv w))), priv := priv w @ [d]\<rparr>)"

definition stub_transform ::
  "(dims \<Rightarrow> dims) \<Rightarrow> ptr \<Rightarrow> ptr \<Rightarrow> dims list world \<Rightarrow> c_int \<times> dims list world" where
  "stub_transform f inp out w =
     (case stub_image (priv w) inp of
        None \<Rightarrow> (- 1, w)
      | Some d \<Rightarrow> stub_emit out (f d) w)"

text \<open>
  The stand-in's JPEG decoder reads a picture \<open>len\<close> wide and half as high. Its
  shrink-on-load accepts the factors 1, 2, 4 and 8 and rounds up; its resize rounds
  down.
\<close>

definition stub_jpegload :: "ptr \<Rightarrow> size_t \<Rightarrow> ptr \<Rightarrow> options \<Rightarrow> dims list world \<Rightarrow> c_int \<times> dims list world" where
  "stub_jpegload buf len out os w =
     (let k = (case map_of os ''shrink'' of Some (Arg_int n) \<Rightarrow> nat (sint n) | _ \<Rightarrow> 1)
      in if 0 < buf \<and> k \<in> {1, 2, 4, 8}
         then stub_emit out ((unat len + k - 1) div k, (unat len div 2 + k - 1) div k) w
         else (- 1, w))"

definition stub_shrink :: "ptr \<Rightarrow> ptr \<Rightarrow> c_double \<Rightarrow> c_double \<Rightarrow> dims list world \<Rightarrow> c_int \<times> dims list world" where
  "stub_shrink inp out x y w =
     (if x < 1 \<or> y < 1 then (- 1, w)
      else stub_transform (\<lambda>d. (nat \<lfloor>real (fst d) / x\<rfloor>, nat \<lfloor>real (snd d) / y\<rfloor>)) inp out w)"

fun stub_library :: "dims list library" where
  "stub_library (Vips_init name) w = (0, w)"
| "stub_library (Vips_gaussblur inp out sigma os) w = stub_transform id inp out w"
| "stub_library (Vips_affine inp out a b c d os) w = stub_transform id inp out w"
| "stub_library (Vips_jpegload_buffer buf len out os) w = stub_jpegload buf len out os w"
| "stub_library (Vips_magickload filename out os) w =
     (if filename = [] then (- 1, w) else stub_emit out (1, 1) w)"
| "stub_library (Vips_pngload_buffer buf len out os) w =
     (if buf = 0 then (- 1, w) else stub_emit out (unat len, unat len) w)"
| "stub_library (Vips_shrink inp out xshrink yshrink os) w = stub_shrink inp out xshrink yshrink w"
| "stub_library (Vips_copy inp out os) w = stub_transform id inp out w"
| "stub_library (Vips_flatten inp out os) w = stub_transform id inp out w"
| "stub_library (Vips_embed inp out left top0 width height os) w =
     stub_transform (\<lambda>d. (unat width, unat height)) inp out w"
| "stub_library (Vips_colourspace inp out space os) w = stub_transform id inp out w"
| "stub_library (Vips_extract_area inp out left top0 width height os) w =
     stub_transform (\<lambda>d. (unat width, unat height)) inp out w"
| "stub_library (Vips_jpegsave_buffer inp buf len os) w =
     (case stub_image (priv w) inp of
        None \<Rightarrow> (- 1, w)
      | Some d \<Rightarrow> (0, w\<lparr>slots := (slots w)(buf \<mapsto> 4096, len \<mapsto> fst d * snd d)\<rparr>))"



text \<open>A world of the stand-in that holds one image, 50 by 40, under handle 1.\<close>

definition stub_world :: "dims list world" where
  "stub_world = empty_world [(50, 40)]"

section \<open>Facts about the building blocks\<close>

lemma call_eq:
  "call L c (w, tr) = (fst (L c w), (snd (L c w), tr @ [Called c (fst (L c w))]))"
  by (simp add: call_def split: prod.split)


text \<open>
  The allocation in \<^verbatim>\<open>vips_flatten_0\<close>: the count \<^verbatim>\<open>1.0\<close> becomes the integer 1, so
  the array has the one element 255.
\<close>

lemma newv_white:
  "vips_array_double_newv (c_int_of_double 1) [255] (w, tr) =
     (next_area w,
      (w\<lparr>areas := (areas w)(next_area w \<mapsto> \<lparr>count = 1, data = [255]\<rparr>),
         next_area := Suc (next_area w)\<rparr>,
       tr @ [Allocated (next_area w) [255]]))"
  by (simp add: vips_array_double_newv_def c_int_of_double_def Let_def)

lemma areas_newv_white:
  "areas (fst (snd (vips_array_double_newv (c_int_of_double 1) [255] (w, tr)))) (next_area w) =
     Some \<lparr>count = 1, data = [255]\<rparr>"
  by (simp add: newv_white)


lemma trace_unref: "snd (vips_area_unref p (w, tr)) = tr @ [Released p]"
  by (simp add: vips_area_unref_def split: option.split)


lemma priv_unref: "priv (fst (vips_area_unref p (w, tr))) = priv w"
  by (simp add: vips_area_unref_def split: option.split)

lemma areas_unref_last:
  "areas w p = Some a \<Longrightarrow> count a = 1 \<Longrightarrow> areas (fst (vips_area_unref p (w, tr))) p = None"
  by (simp add: vips_area_unref_def)

text \<open>\<^verbatim>\<open>vips_flatten_0\<close> step by step: allocate, call, release, return the status.\<close>

lemma flatten_eq:
  "vips_flatten_0 L inp out (w, tr) =
     (fst (L (Vips_flatten inp out [(''background'', Arg_ptr (next_area w))])
            (fst (snd (vips_array_double_newv (c_int_of_double 1) [255] (w, tr))))),
      vips_area_unref (next_area w)
        (snd (L (Vips_flatten inp out [(''background'', Arg_ptr (next_area w))])
               (fst (snd (vips_array_double_newv (c_int_of_double 1) [255] (w, tr))))),
         tr @ [Allocated (next_area w) [255],
               Called (Vips_flatten inp out [(''background'', Arg_ptr (next_area w))])
                 (fst (L (Vips_flatten inp out [(''background'', Arg_ptr (next_area w))])
                        (fst (snd (vips_array_double_newv (c_int_of_double 1) [255]
                                     (w, tr))))))]))"
  by (simp add: vips_flatten_0_def newv_white call_eq)


lemma flatten_trace:
  "snd (snd (vips_flatten_0 L inp out (w, tr))) =
     tr @ [Allocated (next_area w) [255],
           Called (Vips_flatten inp out [(''background'', Arg_ptr (next_area w))])
             (fst (vips_flatten_0 L inp out (w, tr))),
           Released (next_area w)]"
  by (simp add: flatten_eq trace_unref)

text \<open>The stand-in library never touches an area.\<close>

lemma stub_flatten_keeps_areas:
  "areas (snd (stub_library (Vips_flatten inp out os) w)) = areas w"
  by (simp add: stub_transform_def stub_emit_def split: option.split)

section \<open>The flatten operation\<close>

text \<open>
  C1, as the code has it. For every image, library and state, \<^verbatim>\<open>vips_flatten_0\<close>
  makes one library call, \<^verbatim>\<open>vips_flatten\<close>, whose only option is \<^verbatim>\<open>"background"\<close>; the
  option points to the array allocated just before, which holds exactly one element,
  255 (white, for whatever number of bands), and one reference. A library that reads
  the array behind the option finds that one element. The \<^verbatim>\<open>1.0\<close> in the source is
  the element count of the allocator, not a channel.
\<close>

theorem flatten_background_one_element:
  "areas (fst (snd (vips_array_double_newv (c_int_of_double 1) [255] (w, tr)))) (next_area w) =
     Some \<lparr>count = 1, data = [255]\<rparr>
   \<and> filter is_Called (drop (length tr) (snd (snd (vips_flatten_0 L inp out (w, tr))))) =
       [Called (Vips_flatten inp out [(''background'', Arg_ptr (next_area w))])
          (fst (vips_flatten_0 L inp out (w, tr)))]
   \<and> priv (fst (snd (vips_flatten_0 probe_background inp out (w0, tr0)))) = Some [255]"
  by (simp add: flatten_trace areas_newv_white)
     (simp add: flatten_eq newv_white priv_unref probe_background_def)

text \<open>
  C1, as the specification words it, fails: the array the library receives from
  \<^verbatim>\<open>vips_flatten_0\<close> (image 1, output slot 2, nothing allocated before) does not have
  two elements.
\<close>

theorem flatten_background_two_elements_counterexample:
  "map_option length
     (priv (fst (snd (vips_flatten_0 probe_background 1 2 (empty_world None, []))))) \<noteq> Some 2"
  by (simp add: flatten_eq newv_white priv_unref probe_background_def empty_world_def)

text \<open>
  C2, as the code has it. Whatever the library does and returns, the run of
  \<^verbatim>\<open>vips_flatten_0\<close> is: the array is allocated, \<^verbatim>\<open>vips_flatten\<close> is called with it, the
  shim's reference is released; nothing comes between, and the release does not
  depend on the status. At return the array holds one reference fewer than the
  library's call left on it: it is freed if the call left at most one, and lives on
  with the library's references otherwise. In particular it is freed if the call
  left the array as it found it.
\<close>

theorem flatten_releases_background:
  "snd (snd (vips_flatten_0 L inp out (w, tr))) =
     tr @ [Allocated (next_area w) [255],
           Called (Vips_flatten inp out [(''background'', Arg_ptr (next_area w))])
             (fst (vips_flatten_0 L inp out (w, tr))),
           Released (next_area w)]
   \<and> areas (fst (snd (vips_flatten_0 L inp out (w, tr)))) (next_area w) =
       (case areas (snd (L (Vips_flatten inp out [(''background'', Arg_ptr (next_area w))])
                          (fst (snd (vips_array_double_newv (c_int_of_double 1) [255]
                                       (w, tr))))))
               (next_area w) of
          None \<Rightarrow> None
        | Some a \<Rightarrow> if count a \<le> 1 then None else Some (a\<lparr>count := count a - 1\<rparr>))
   \<and> (areas (snd (L (Vips_flatten inp out [(''background'', Arg_ptr (next_area w))])
                     (fst (snd (vips_array_double_newv (c_int_of_double 1) [255] (w, tr))))))
          (next_area w) =
        areas (fst (snd (vips_array_double_newv (c_int_of_double 1) [255] (w, tr)))) (next_area w)
      \<longrightarrow> areas (fst (snd (vips_flatten_0 L inp out (w, tr)))) (next_area w) = None)"
proof (intro conjI impI)
  show "snd (snd (vips_flatten_0 L inp out (w, tr))) =
     tr @ [Allocated (next_area w) [255],
           Called (Vips_flatten inp out [(''background'', Arg_ptr (next_area w))])
             (fst (vips_flatten_0 L inp out (w, tr))),
           Released (next_area w)]"
    by (rule flatten_trace)
next
  let ?w1 = "fst (snd (vips_array_double_newv (c_int_of_double 1) [255] (w, tr)))"
  let ?w2 = "snd (L (Vips_flatten inp out [(''background'', Arg_ptr (next_area w))]) ?w1)"
  have "areas (fst (vips_area_unref (next_area w) (?w2, tr'))) (next_area w) =
          (case areas ?w2 (next_area w) of
             None \<Rightarrow> None
           | Some a \<Rightarrow> if count a \<le> 1 then None else Some (a\<lparr>count := count a - 1\<rparr>))" for tr'
    by (simp add: vips_area_unref_def split: option.split)
  then show "areas (fst (snd (vips_flatten_0 L inp out (w, tr)))) (next_area w) =
          (case areas ?w2 (next_area w) of
             None \<Rightarrow> None
           | Some a \<Rightarrow> if count a \<le> 1 then None else Some (a\<lparr>count := count a - 1\<rparr>))"
    by (simp add: flatten_eq)
next
  let ?w1 = "fst (snd (vips_array_double_newv (c_int_of_double 1) [255] (w, tr)))"
  let ?w2 = "snd (L (Vips_flatten inp out [(''background'', Arg_ptr (next_area w))]) ?w1)"
  assume kept: "areas ?w2 (next_area w) = areas ?w1 (next_area w)"
  then have live: "areas ?w2 (next_area w) = Some \<lparr>count = 1, data = [255]\<rparr>"
    by (simp only: areas_newv_white)
  have "areas (fst (vips_area_unref (next_area w) (?w2, tr'))) (next_area w) = None" for tr'
    by (rule areas_unref_last [OF live]) simp
  then show "areas (fst (snd (vips_flatten_0 L inp out (w, tr)))) (next_area w) = None"
    by (simp add: flatten_eq)
qed

text \<open>
  Against the stand-in library, once with a valid image (status 0) and once with a
  \<^verbatim>\<open>NULL\<close> image (status \<open>-1\<close>): in both runs the array, at address 1, is gone.
\<close>

theorem flatten_releases_background_witness:
  "fst (vips_flatten_0 stub_library 1 7 (stub_world, [])) = 0
   \<and> areas (fst (snd (vips_flatten_0 stub_library 1 7 (stub_world, [])))) 1 = None
   \<and> fst (vips_flatten_0 stub_library 0 7 (stub_world, [])) = - 1
   \<and> areas (fst (snd (vips_flatten_0 stub_library 0 7 (stub_world, [])))) 1 = None"
  using flatten_releases_background [of stub_library 1 7 stub_world "[]"]
    flatten_releases_background [of stub_library 0 7 stub_world "[]"]
  by (simp add: stub_flatten_keeps_areas)
     (simp add: flatten_eq newv_white stub_world_def empty_world_def stub_transform_def
        stub_emit_def stub_image_def)

text \<open>
  C2, as the specification words it, fails: against a library that keeps a
  reference to its background option, \<^verbatim>\<open>vips_flatten_0\<close> (image 1, output slot 2,
  nothing allocated before) returns 0 and the array, at address 1, is still
  allocated, held by the library's reference.
\<close>

theorem flatten_background_reachable_counterexample:
  "fst (vips_flatten_0 keeping_library 1 2 (empty_world (), [])) = 0
   \<and> areas (fst (snd (vips_flatten_0 keeping_library 1 2 (empty_world (), [])))) 1 =
       Some \<lparr>count = 1, data = [255]\<rparr>"
  by (simp add: flatten_eq newv_white vips_area_unref_def keeping_library_def empty_world_def)

section \<open>Status codes and output parameters\<close>




section \<open>Decoding and encoding\<close>

text \<open>
  C5. For every buffer, \<^verbatim>\<open>vips_jpegload_buffer_seq\<close> and \<^verbatim>\<open>vips_pngload_buffer_seq\<close>
  each make one call to their decoder, with the buffer, its length and the output
  slot as given and with the single option \<^verbatim>\<open>"access"\<close> set to
  \<^verbatim>\<open>VIPS_ACCESS_SEQUENTIAL\<close>; status and world are the decoder's.
\<close>

theorem buffer_decode_sequential:
  "vips_jpegload_buffer_seq L buf len out (w, tr) =
     (let c = Vips_jpegload_buffer buf len out [(''access'', Arg_access VIPS_ACCESS_SEQUENTIAL)]
      in (fst (L c w), (snd (L c w), tr @ [Called c (fst (L c w))])))
   \<and> vips_pngload_buffer_seq L buf len out (w, tr) =
     (let c = Vips_pngload_buffer buf len out [(''access'', Arg_access VIPS_ACCESS_SEQUENTIAL)]
      in (fst (L c w), (snd (L c w), tr @ [Called c (fst (L c w))])))
   \<and> options_passed (snd (snd (vips_jpegload_buffer_seq L buf len out (w, [])))) =
       [(''access'', Arg_access VIPS_ACCESS_SEQUENTIAL)]
   \<and> options_passed (snd (snd (vips_pngload_buffer_seq L buf len out (w, [])))) =
       [(''access'', Arg_access VIPS_ACCESS_SEQUENTIAL)]"
  by (simp add: vips_jpegload_buffer_seq_def vips_pngload_buffer_seq_def call_eq Let_def
        options_passed_def)

text \<open>
  C6. For every image and every value of \<open>strip\<close>, \<open>quality\<close> and \<open>interlace\<close>,
  \<^verbatim>\<open>vips_jpegsave_custom\<close> makes one call to the encoder with exactly four options:
  \<^verbatim>\<open>"strip"\<close>, \<^verbatim>\<open>"Q"\<close> and \<^verbatim>\<open>"interlace"\<close> carry the three parameters unchanged, and
  \<^verbatim>\<open>"optimize_coding"\<close> is \<^verbatim>\<open>TRUE\<close> whatever the caller passed.
\<close>

theorem jpegsave_custom_options:
  "vips_jpegsave_custom L inp buf len strip quality interlace (w, tr) =
     (let c = Vips_jpegsave_buffer inp buf len
                [(''strip'', Arg_int strip), (''Q'', Arg_int quality),
                 (''optimize_coding'', Arg_int TRUE), (''interlace'', Arg_int interlace)]
      in (fst (L c w), (snd (L c w), tr @ [Called c (fst (L c w))])))
   \<and> map_of (options_passed
               (snd (snd (vips_jpegsave_custom L inp buf len strip quality interlace (w, []))))) =
       [''strip'' \<mapsto> Arg_int strip, ''Q'' \<mapsto> Arg_int quality,
        ''optimize_coding'' \<mapsto> Arg_int TRUE, ''interlace'' \<mapsto> Arg_int interlace]
   \<and> TRUE \<noteq> 0"
  by (auto simp add: vips_jpegsave_custom_def call_eq Let_def options_passed_def TRUE_def)

text \<open>
  C9. For every buffer and factor, \<^verbatim>\<open>vips_jpegload_buffer_shrink\<close> makes one call to the
  JPEG decoder whose only option is \<^verbatim>\<open>"shrink"\<close>, carrying the factor unchanged. No
  \<^verbatim>\<open>"access"\<close> option is passed, where \<^verbatim>\<open>vips_jpegload_buffer_seq\<close> passes
  \<^verbatim>\<open>VIPS_ACCESS_SEQUENTIAL\<close>.
\<close>

theorem jpegload_buffer_shrink_only_shrink:
  "vips_jpegload_buffer_shrink L buf len out shrink (w, tr) =
     (let c = Vips_jpegload_buffer buf len out [(''shrink'', Arg_int shrink)]
      in (fst (L c w), (snd (L c w), tr @ [Called c (fst (L c w))])))
   \<and> options_passed (snd (snd (vips_jpegload_buffer_shrink L buf len out shrink (w, [])))) =
       [(''shrink'', Arg_int shrink)]
   \<and> map_of (options_passed
               (snd (snd (vips_jpegload_buffer_shrink L buf len out shrink (w, [])))))
         ''access'' = None
   \<and> map_of (options_passed (snd (snd (vips_jpegload_buffer_seq L buf len out (w, [])))))
         ''access'' = Some (Arg_access VIPS_ACCESS_SEQUENTIAL)"
  by (simp add: vips_jpegload_buffer_shrink_def vips_jpegload_buffer_seq_def call_eq Let_def
        options_passed_def)

section \<open>Pass-through operations\<close>




section \<open>Initialisation\<close>

text \<open>
  C10. \<^verbatim>\<open>vips_initialize\<close> has no parameter of its own. Whatever the library and the
  state, it makes exactly one library call, \<^verbatim>\<open>vips_init\<close> with the fixed name
  \<^verbatim>\<open>"govips"\<close>; it returns the status of that call unchanged and leaves the world as
  the library left it.
\<close>

theorem vips_initialize_govips:
  "vips_initialize L (w, tr) =
     (fst (L (Vips_init ''govips'') w),
      (snd (L (Vips_init ''govips'') w),
       tr @ [Called (Vips_init ''govips'') (fst (L (Vips_init ''govips'') w))]))"
  by (simp add: vips_initialize_def call_eq)

end
